theory Spec2Isabelle
  imports Main "HOL-Library.Sublist"
begin

section \<open>The download server of the IslandDAO governance platform\<close>

text \<open>
  The program is \<^verbatim>\<open>src/download-server.py\<close>: a class \<^verbatim>\<open>DownloadHandler\<close> that
  derives from \<^verbatim>\<open>http.server.SimpleHTTPRequestHandler\<close> and overrides \<^verbatim>\<open>do_GET\<close>,
  and a module body that binds a \<^verbatim>\<open>socketserver.TCPServer\<close> to port 8080, prints
  four lines and serves forever.

  The handler is a sequence of calls on its base class (\<^verbatim>\<open>send_response\<close>,
  \<^verbatim>\<open>send_header\<close>, \<^verbatim>\<open>end_headers\<close>, \<^verbatim>\<open>wfile.write\<close>, \<^verbatim>\<open>send_error\<close>) and two
  calls of \<^verbatim>\<open>open\<close>, and it runs only for the requests the base class passes on
  to it. The base class belongs to the Python standard library; the methods that
  decide what a client receives are modelled below after \<^verbatim>\<open>http/server.py\<close> and
  \<^verbatim>\<open>socketserver.py\<close> of Python 3.11: the reading of the request line
  (\<^verbatim>\<open>parse_request\<close> with all its refusals), the dispatch on the command, the
  writing of status line and headers (which depends on the version of the request)
  and \<^verbatim>\<open>send_error\<close>.

  Left out: the log on standard error; \<^verbatim>\<open>self.close_connection\<close> (the protocol
  version of the class is HTTP/1.0, so every connection carries one request);
  the \<^verbatim>\<open>Expect: 100-continue\<close> reply, which the library sends only under protocol
  version HTTP/1.1; a client that disconnects while the response is written; and
  \<^verbatim>\<open>TimeoutError\<close>, which \<^verbatim>\<open>handle_one_request\<close> would catch (the class sets no
  socket timeout).
\<close>

subsection \<open>Data\<close>

text \<open>Python \<^verbatim>\<open>bytes\<close>: a list of 8-bit characters.\<close>

type_synonym bytes = string

text \<open>
  The only exception the handler can raise by itself: \<^verbatim>\<open>open(name, 'rb')\<close> or
  the \<^verbatim>\<open>read()\<close> after it fails (\<^verbatim>\<open>FileNotFoundError\<close>, \<^verbatim>\<open>PermissionError\<close>,
  \<^verbatim>\<open>IsADirectoryError\<close>: all subclasses of \<^verbatim>\<open>OSError\<close>). Binding the listening
  socket fails with the same class.
\<close>

datatype error = OSError

text \<open>
  What goes to the client, in the units the library writes: the status line
  (its code; the reason phrase is left out), one header line, the blank line that
  ends the headers, and a block of body bytes.
\<close>

datatype chunk =
    StatusLine int
  | HeaderLine string string
  | BlankLine
  | Data bytes

text \<open>
  One handler instance (\<^verbatim>\<open>self\<close>) together with the directory the process runs
  in. \<^verbatim>\<open>command\<close>, \<^verbatim>\<open>path\<close> and \<^verbatim>\<open>request_version\<close> are set by \<^verbatim>\<open>parse_request\<close>;
  \<^verbatim>\<open>command\<close> is \<^verbatim>\<open>None\<close> until the request line has passed its checks.
  \<^verbatim>\<open>headers_buffer\<close> is \<^verbatim>\<open>self._headers_buffer\<close>: lines collected but not yet sent.
  \<^verbatim>\<open>wfile\<close> is everything written to the socket so far; the socket writer is
  unbuffered (\<^verbatim>\<open>wbufsize = 0\<close>), so what is in \<^verbatim>\<open>wfile\<close> has left the process.
  \<^verbatim>\<open>files\<close> maps a file name of the working directory to its contents, or to
  \<^verbatim>\<open>None\<close> when the file is missing or cannot be read.
\<close>

record handler =
  command :: "string option"
  path :: string
  request_version :: string
  headers_buffer :: "chunk list"
  wfile :: "chunk list"
  files :: "string \<Rightarrow> bytes option"

text \<open>
  What the library and the operating system supply and the source does not
  determine: the value of the \<^verbatim>\<open>Server\<close> header; the value of the \<^verbatim>\<open>Date\<close> header
  while the request is handled; the HTML page \<^verbatim>\<open>send_error\<close> builds from a status
  code, a message and an explanation; Python's \<^verbatim>\<open>repr\<close> of a string; for the
  inherited \<^verbatim>\<open>do_HEAD\<close>, whether the served directory is a directory, which names in
  it are regular files, its listing (\<^verbatim>\<open>None\<close> when \<^verbatim>\<open>os.listdir\<close> raises), the page
  built from a listing, and the name of the file system encoding; and what the
  inherited \<^verbatim>\<open>send_head\<close> writes on its other paths.
\<close>

record framework =
  version_string :: string
  date_time_string :: string
  error_page :: "int \<Rightarrow> string option \<Rightarrow> string option \<Rightarrow> bytes"
  repr :: "string \<Rightarrow> string"
  isdir :: bool
  isfile :: "string \<Rightarrow> bool"
  listdir :: "string list option"
  listing_page :: "string list \<Rightarrow> bytes"
  getfilesystemencoding :: string
  send_head :: "handler \<Rightarrow> chunk list"

text \<open>
  A request as the serving loop meets it: the time at which it is handled (the
  text \<^verbatim>\<open>date_time_string()\<close> returns then), the line
  \<^verbatim>\<open>self.rfile.readline(65537)\<close> returns, and the exception, if any, that reading
  the header lines after it raises (with the text of \<^verbatim>\<open>str(err)\<close>).
\<close>

datatype header_fault = LineTooLong string | HTTPException string

record request =
  date :: string
  raw_requestline :: bytes
  header_fault :: "header_fault option"

subsection \<open>Decimal numerals\<close>

text \<open>Python's \<^verbatim>\<open>str\<close> of an \<^verbatim>\<open>int\<close>, as the f-strings and \<^verbatim>\<open>str(len(body))\<close> use it.\<close>

definition digit :: "nat \<Rightarrow> char" where
  "digit d = ''0123456789'' ! d"

fun str_nat :: "nat \<Rightarrow> string" where
  "str_nat n = (if n < 10 then [digit n] else str_nat (n div 10) @ [digit (n mod 10)])"

declare str_nat.simps [simp del]

definition str :: "int \<Rightarrow> string" where
  "str i = (if i < 0 then CHR ''-'' # str_nat (nat (- i)) else str_nat (nat i))"

subsection \<open>String methods\<close>

text \<open>
  \<^verbatim>\<open>str.isspace\<close> on the characters of ISO 8859-1, in which the request line is
  decoded.
\<close>

definition isspace :: "char \<Rightarrow> bool" where
  "isspace c \<longleftrightarrow>
     c \<in> set [CHR 0x09, CHR 0x0A, CHR 0x0B, CHR 0x0C, CHR 0x0D, CHR 0x1C, CHR 0x1D,
              CHR 0x1E, CHR 0x1F, CHR 0x20, CHR 0x85, CHR 0xA0]"

text \<open>\<^verbatim>\<open>s.split()\<close>: the words between runs of whitespace; \<^verbatim>\<open>w\<close> is the word begun, reversed.\<close>

fun split_acc :: "string \<Rightarrow> string \<Rightarrow> string list" where
  "split_acc w [] = (if w = [] then [] else [rev w])"
| "split_acc w (c # cs) =
     (if isspace c then (if w = [] then split_acc [] cs else rev w # split_acc [] cs)
      else split_acc (c # w) cs)"

definition split_whitespace :: "string \<Rightarrow> string list" where
  "split_whitespace s = split_acc [] s"

text \<open>\<^verbatim>\<open>s.split(sep)\<close> for a separator of one character.\<close>

fun split_on :: "char \<Rightarrow> string \<Rightarrow> string list" where
  "split_on sep [] = [[]]"
| "split_on sep (c # cs) =
     (if c = sep then [] # split_on sep cs
      else (case split_on sep cs of [] \<Rightarrow> [[c]] | w # ws \<Rightarrow> (c # w) # ws))"

definition rstrip :: "string \<Rightarrow> string \<Rightarrow> string" where
  "rstrip chars s = rev (dropWhile (\<lambda>c. c \<in> set chars) (rev s))"

definition lstrip :: "string \<Rightarrow> string \<Rightarrow> string" where
  "lstrip chars s = dropWhile (\<lambda>c. c \<in> set chars) s"

definition startswith :: "string \<Rightarrow> string \<Rightarrow> bool" where
  "startswith s pre \<longleftrightarrow> take (length pre) s = pre"

text \<open>
  \<^verbatim>\<open>str.isdigit\<close> on ISO 8859-1: the ten digits and the superscripts two, three and
  one; the empty string has no digit.
\<close>

definition isdigit :: "string \<Rightarrow> bool" where
  "isdigit s \<longleftrightarrow>
     s \<noteq> [] \<and> list_all (\<lambda>c. c \<in> set (''0123456789'' @ [CHR 0xB2, CHR 0xB3, CHR 0xB9])) s"

text \<open>
  \<^verbatim>\<open>int(s)\<close> for a string that passed \<^verbatim>\<open>isdigit\<close>: the superscripts raise
  \<^verbatim>\<open>ValueError\<close> (\<^verbatim>\<open>None\<close>).
\<close>

definition int_of_digits :: "string \<Rightarrow> nat option" where
  "int_of_digits s =
     (if list_all (\<lambda>c. c \<in> set ''0123456789'') s
      then Some (foldl (\<lambda>n c. 10 * n + (of_char c - 48)) 0 s)
      else None)"

subsection \<open>The methods of the base class that write the response\<close>

text \<open>
  For a request of version HTTP/0.9 the library writes neither status line nor
  headers: \<^verbatim>\<open>send_response_only\<close>, \<^verbatim>\<open>send_header\<close> and \<^verbatim>\<open>end_headers\<close> all start with
  \<^verbatim>\<open>if self.request_version != 'HTTP/0.9'\<close>.
\<close>

definition send_response_only :: "int \<Rightarrow> handler \<Rightarrow> handler" where
  "send_response_only code self =
     (if request_version self \<noteq> ''HTTP/0.9''
      then self\<lparr>headers_buffer := headers_buffer self @ [StatusLine code]\<rparr>
      else self)"

definition send_header :: "string \<Rightarrow> string \<Rightarrow> handler \<Rightarrow> handler" where
  "send_header keyword v self =
     (if request_version self \<noteq> ''HTTP/0.9''
      then self\<lparr>headers_buffer := headers_buffer self @ [HeaderLine keyword v]\<rparr>
      else self)"

definition flush_headers :: "handler \<Rightarrow> handler" where
  "flush_headers self =
     self\<lparr>wfile := wfile self @ headers_buffer self, headers_buffer := []\<rparr>"

definition end_headers :: "handler \<Rightarrow> handler" where
  "end_headers self =
     (if request_version self \<noteq> ''HTTP/0.9''
      then flush_headers (self\<lparr>headers_buffer := headers_buffer self @ [BlankLine]\<rparr>)
      else self)"

definition wfile_write :: "bytes \<Rightarrow> handler \<Rightarrow> handler" where
  "wfile_write b self = self\<lparr>wfile := wfile self @ [Data b]\<rparr>"

definition send_response :: "framework \<Rightarrow> int \<Rightarrow> handler \<Rightarrow> handler" where
  "send_response fw code self =
     (let self = send_response_only code self;
          self = send_header ''Server'' (version_string fw) self;
          self = send_header ''Date'' (date_time_string fw) self
      in self)"

text \<open>
  \<^verbatim>\<open>send_error(code, message, explain)\<close>: status line, \<^verbatim>\<open>Connection: close\<close>, and,
  for the codes that carry a body, the error page with its type and length.
\<close>

definition send_error ::
  "framework \<Rightarrow> int \<Rightarrow> string option \<Rightarrow> string option \<Rightarrow> handler \<Rightarrow> handler" where
  "send_error fw code message explain self =
     (let self = send_response fw code self;
          self = send_header ''Connection'' ''close'' self
      in if code \<ge> 200 \<and> code \<notin> {204, 205, 304} then
           let body = error_page fw code message explain;
               self = send_header ''Content-Type'' ''text/html;charset=utf-8'' self;
               self = send_header ''Content-Length'' (str (int (length body))) self;
               self = end_headers self
           in if command self \<noteq> Some ''HEAD'' \<and> body \<noteq> [] then wfile_write body self
              else self
         else end_headers self)"

text \<open>
  \<^verbatim>\<open>with open(name, 'rb') as f: ... f.read()\<close>: the whole contents, or the error.
  The file is opened for reading only, so \<^verbatim>\<open>files\<close> stays as it is.
\<close>

definition open_rb :: "string \<Rightarrow> handler \<Rightarrow> error + bytes" where
  "open_rb name self = (case files self name of None \<Rightarrow> Inl OSError | Some b \<Rightarrow> Inr b)"

subsection \<open>The landing page\<close>

text \<open>
  The bytes of \<^verbatim>\<open>html.encode()\<close>. The literal is ASCII except for U+1F4C4, which
  occurs twice and whose UTF-8 encoding is the four bytes \<^verbatim>\<open>F0 9F 93 84\<close>.
\<close>

definition page_facing_up :: bytes where
  "page_facing_up = [CHR 0xF0, CHR 0x9F, CHR 0x93, CHR 0x84]"

definition html :: bytes where
  \<open>html =
     ''\<newline>'' @
     ''            <!DOCTYPE html>\<newline>'' @
     ''            <html>\<newline>'' @
     ''            <head>\<newline>'' @
     ''                <title>IslandDAO Governance Methodology Downloads</title>\<newline>'' @
     ''                <style>\<newline>'' @
     ''                    body { font-family: Arial, sans-serif; margin: 40px; }\<newline>'' @
     ''                    h1 { color: #333; }\<newline>'' @
     ''                    a { color: #0066cc; text-decoration: none; display: block; margin: 20px 0; }\<newline>'' @
     ''                    a:hover { text-decoration: underline; }\<newline>'' @
     ''                </style>\<newline>'' @
     ''            </head>\<newline>'' @
     ''            <body>\<newline>'' @
     ''                <h1>IslandDAO Governance Methodology Downloads</h1>\<newline>'' @
     ''                <p>Download the complete methodology documentation:</p>\<newline>'' @
     ''                <a href="'' @ ''/governance-methodology.txt'' @ ''">'' @ page_facing_up @
       '' Download Plain Text Version (.txt)</a>\<newline>'' @
     ''                <a href="'' @ ''/governance-methodology.md'' @ ''">'' @ page_facing_up @
       '' Download Formatted Version (.md)</a>\<newline>'' @
     ''            </body>\<newline>'' @
     ''            </html>\<newline>'' @
     ''            ''\<close>

subsection \<open>The handler's \<^verbatim>\<open>do_GET\<close>\<close>

text \<open>
  The result is the exception that left the method, if any, and the handler as the
  method left it: what was written before an exception stays written.
\<close>

definition do_GET :: "framework \<Rightarrow> handler \<Rightarrow> error option \<times> handler" where
  \<open>do_GET fw self =
     (if path self = ''/governance-methodology.txt'' then
        let self = send_response fw 200 self;
            self = send_header ''Content-Type'' ''text/plain'' self;
            self = send_header ''Content-Disposition''
                     ''attachment; filename="islanddao-governance-methodology.txt"'' self;
            self = end_headers self
        in (case open_rb ''governance-power-methodology.txt'' self of
              Inl e \<Rightarrow> (Some e, self)
            | Inr f \<Rightarrow> (None, wfile_write f self))
      else if path self = ''/governance-methodology.md'' then
        let self = send_response fw 200 self;
            self = send_header ''Content-Type'' ''text/markdown'' self;
            self = send_header ''Content-Disposition''
                     ''attachment; filename="islanddao-governance-methodology.md"'' self;
            self = end_headers self
        in (case open_rb ''formatted-governance-methodology.md'' self of
              Inl e \<Rightarrow> (Some e, self)
            | Inr f \<Rightarrow> (None, wfile_write f self))
      else if path self = ''/'' then
        let self = send_response fw 200 self;
            self = send_header ''Content-Type'' ''text/html'' self;
            self = end_headers self
        in (None, wfile_write html self)
      else (None, send_error fw 404 None None self))\<close>

subsection \<open>The inherited \<^verbatim>\<open>do_HEAD\<close>\<close>

text \<open>
  \<^verbatim>\<open>SimpleHTTPRequestHandler.list_directory\<close>: 404 when the directory cannot be
  listed, else status 200 with the type and length of the listing page. Under
  HEAD the page itself is not written.
\<close>

definition list_directory :: "framework \<Rightarrow> handler \<Rightarrow> handler" where
  "list_directory fw self =
     (case listdir fw of
        None \<Rightarrow> send_error fw 404 (Some ''No permission to list directory'') None self
      | Some names \<Rightarrow>
          let encoded = listing_page fw names;
              self = send_response fw 200 self;
              self = send_header ''Content-type''
                       (''text/html; charset='' @ getfilesystemencoding fw) self;
              self = send_header ''Content-Length'' (str (int (length encoded))) self;
              self = end_headers self
          in self)"

text \<open>
  \<^verbatim>\<open>DownloadHandler\<close> does not override \<^verbatim>\<open>do_HEAD\<close>, so a HEAD request is served by
  \<^verbatim>\<open>SimpleHTTPRequestHandler\<close> from the working directory. Of its \<^verbatim>\<open>send_head\<close>
  one path is modelled: the path \<^verbatim>\<open>/\<close> of a directory without \<^verbatim>\<open>index.html\<close> and
  \<^verbatim>\<open>index.htm\<close> ends in \<^verbatim>\<open>list_directory\<close>. What \<^verbatim>\<open>send_head\<close> writes on its other
  paths (a file, a redirect, an index file, a conditional request) is the
  parameter \<^verbatim>\<open>send_head\<close>.
\<close>

definition do_HEAD :: "framework \<Rightarrow> handler \<Rightarrow> error option \<times> handler" where
  "do_HEAD fw self =
     (if path self = ''/'' \<and> isdir fw \<and> \<not> isfile fw ''index.html'' \<and> \<not> isfile fw ''index.htm''
      then (None, list_directory fw self)
      else (None, self\<lparr>wfile := wfile self @ send_head fw self\<rparr>))"

subsection \<open>Reading the request line\<close>

text \<open>
  The version check of \<^verbatim>\<open>parse_request\<close>: the word must start with \<^verbatim>\<open>HTTP/\<close>, the
  rest must be two components around one dot, each made of digits, at most ten
  of them, and convertible by \<^verbatim>\<open>int\<close>. \<^verbatim>\<open>None\<close> stands for the \<^verbatim>\<open>ValueError\<close> that
  the library turns into status 400.
\<close>

definition version_number :: "string \<Rightarrow> (nat \<times> nat) option" where
  "version_number version =
     (if \<not> startswith version ''HTTP/'' then None
      else
        let components = split_on CHR ''.'' (drop 5 version)
        in if length components \<noteq> 2 then None
           else if list_ex (\<lambda>component. \<not> isdigit component) components then None
           else if list_ex (\<lambda>component. length component > 10) components then None
           else (case (int_of_digits (components ! 0), int_of_digits (components ! 1)) of
                   (Some major, Some minor) \<Rightarrow> Some (major, minor)
                 | _ \<Rightarrow> None))"

text \<open>
  \<^verbatim>\<open>parse_request\<close>. The result says whether the request goes on to a \<^verbatim>\<open>do_\<close>
  method; when it does not, the error response, if any, has been sent. A request
  line of two words is an HTTP/0.9 request and must be a GET. A path that starts
  with two slashes is reduced to one leading slash.
\<close>

definition parse_request :: "framework \<Rightarrow> request \<Rightarrow> handler \<Rightarrow> bool \<times> handler" where
  "parse_request fw rq self =
     (let self = self\<lparr>command := None, request_version := ''HTTP/0.9''\<rparr>;
          requestline = rstrip [CHR 0x0D, CHR 0x0A] (raw_requestline rq);
          words = split_whitespace requestline
      in if length words = 0 then (False, self)
         else if length words \<ge> 3 \<and> version_number (last words) = None then
           (False, send_error fw 400
              (Some (''Bad request version ('' @ repr fw (last words) @ '')'')) None self)
         else if length words \<ge> 3 \<and> fst (the (version_number (last words))) \<ge> 2 then
           (False, send_error fw 505
              (Some (''Invalid HTTP version ('' @ drop 5 (last words) @ '')'')) None self)
         else
           let self = (if length words \<ge> 3 then self\<lparr>request_version := last words\<rparr>
                       else self)
           in if \<not> (2 \<le> length words \<and> length words \<le> 3) then
                (False, send_error fw 400
                   (Some (''Bad request syntax ('' @ repr fw requestline @ '')'')) None self)
              else if length words = 2 \<and> words ! 0 \<noteq> ''GET'' then
                (False, send_error fw 400
                   (Some (''Bad HTTP/0.9 request type ('' @ repr fw (words ! 0) @ '')''))
                   None self)
              else
                let self = self\<lparr>command := Some (words ! 0), path := words ! 1\<rparr>;
                    self = (if startswith (path self) ''//''
                            then self\<lparr>path := CHR ''/'' # lstrip ''/'' (path self)\<rparr>
                            else self)
                in (case header_fault rq of
                      Some (LineTooLong err) \<Rightarrow>
                        (False, send_error fw 431 (Some ''Line too long'') (Some err) self)
                    | Some (HTTPException err) \<Rightarrow>
                        (False, send_error fw 431 (Some ''Too many headers'') (Some err) self)
                    | None \<Rightarrow> (True, self)))"

subsection \<open>Dispatch and the serving loop\<close>

text \<open>
  \<^verbatim>\<open>handle_one_request\<close>: a line of more than 65536 bytes is refused with 414, an
  empty line ends the connection, a request that \<^verbatim>\<open>parse_request\<close> refuses has had
  its answer. Then the method called is the attribute named
  \<^verbatim>\<open>'do_' + self.command\<close>. \<^verbatim>\<open>DownloadHandler\<close> has two such attributes, its own
  \<^verbatim>\<open>do_GET\<close> and the inherited \<^verbatim>\<open>do_HEAD\<close>; for every other command the library
  answers 501 itself.
\<close>

definition handle_one_request ::
  "framework \<Rightarrow> request \<Rightarrow> handler \<Rightarrow> error option \<times> handler" where
  "handle_one_request fw rq self =
     (if length (raw_requestline rq) > 65536 then
        (None, send_error fw 414 None None
                 (self\<lparr>request_version := [], command := Some []\<rparr>))
      else if raw_requestline rq = [] then (None, self)
      else
        (case parse_request fw rq self of
           (False, self) \<Rightarrow> (None, self)
         | (True, self) \<Rightarrow>
             if command self = Some ''GET'' then do_GET fw self
             else if command self = Some ''HEAD'' then do_HEAD fw self
             else (None, send_error fw 501
                     (Some (''Unsupported method ('' @
                            repr fw (case command self of None \<Rightarrow> [] | Some c \<Rightarrow> c) @ '')''))
                     None self)))"

text \<open>A fresh handler instance: the server creates one for every connection.\<close>

definition new_handler :: "(string \<Rightarrow> bytes option) \<Rightarrow> handler" where
  "new_handler fs =
     \<lparr>command = None, path = [], request_version = [], headers_buffer = [], wfile = [],
      files = fs\<rparr>"

text \<open>
  What the client got and whether an exception left the handler. The server catches
  the exception (\<^verbatim>\<open>handle_error\<close> prints a traceback), closes the connection and
  goes on with the next request.
\<close>

type_synonym reply = "error option \<times> chunk list"

definition process_request ::
  "framework \<Rightarrow> request \<Rightarrow> (string \<Rightarrow> bytes option) \<Rightarrow> reply \<times> (string \<Rightarrow> bytes option)" where
  "process_request fw rq fs =
     (let r = handle_one_request (fw\<lparr>date_time_string := date rq\<rparr>) rq (new_handler fs)
      in ((fst r, wfile (snd r)), files (snd r)))"

text \<open>\<^verbatim>\<open>serve_forever\<close> on the requests that arrive, one after the other.\<close>

fun serve_forever ::
  "framework \<Rightarrow> request list \<Rightarrow> (string \<Rightarrow> bytes option) \<Rightarrow> reply list \<times> (string \<Rightarrow> bytes option)" where
  "serve_forever fw [] fs = ([], fs)"
| "serve_forever fw (rq # rqs) fs =
     (let (r, fs') = process_request fw rq fs;
          (rs, fs'') = serve_forever fw rqs fs'
      in (r # rs, fs''))"

text \<open>
  A request that reaches a \<^verbatim>\<open>do_\<close> method: the line is not too long and
  \<^verbatim>\<open>parse_request\<close> succeeds on a fresh handler; \<^verbatim>\<open>self\<close> is the handler as the method
  finds it, with command, path and version of the request.
\<close>

definition accepted ::
  "framework \<Rightarrow> request \<Rightarrow> (string \<Rightarrow> bytes option) \<Rightarrow> handler \<Rightarrow> bool" where
  "accepted fw rq fs self \<longleftrightarrow>
     length (raw_requestline rq) \<le> 65536 \<and>
     parse_request fw rq (new_handler fs) = (True, self)"

text \<open>
  The request target: the second word of the request line, as the client sent it.
\<close>

definition request_target :: "request \<Rightarrow> string" where
  "request_target rq =
     split_whitespace (rstrip [CHR 0x0D, CHR 0x0A] (raw_requestline rq)) ! 1"

text \<open>
  The handler a \<^verbatim>\<open>do_\<close> method finds for a request with command \<^verbatim>\<open>c\<close>, path \<^verbatim>\<open>p\<close> and
  version \<^verbatim>\<open>v\<close>.
\<close>

definition passed ::
  "string \<Rightarrow> string \<Rightarrow> string \<Rightarrow> (string \<Rightarrow> bytes option) \<Rightarrow> handler" where
  "passed c p v fs = (new_handler fs)\<lparr>command := Some c, path := p, request_version := v\<rparr>"

subsection \<open>The module body\<close>

definition PORT :: int where
  "PORT = 8080"

text \<open>
  Start-up: \<^verbatim>\<open>TCPServer(("", PORT), DownloadHandler)\<close> binds the address or raises;
  then the four \<^verbatim>\<open>print\<close> calls run. The result is the address bound and the lines
  on standard output; \<^verbatim>\<open>can_bind\<close> says which addresses the system grants.
\<close>

definition main :: "(string \<times> int \<Rightarrow> bool) \<Rightarrow> error + ((string \<times> int) \<times> string list)" where
  "main can_bind =
     (if can_bind ('''', PORT) then
        Inr (('''', PORT),
          [''Download server running at http://localhost:'' @ str PORT @ ''/'',
           ''Available downloads:'',
           ''  - http://localhost:'' @ str PORT @ ''/governance-methodology.txt'',
           ''  - http://localhost:'' @ str PORT @ ''/governance-methodology.md''])
      else Inl OSError)"

subsection \<open>Reading a response\<close>

text \<open>The status code: the response starts with the status line.\<close>

fun status_of :: "chunk list \<Rightarrow> int option" where
  "status_of (StatusLine c # cs) = Some c"
| "status_of cs = None"

text \<open>The header lines before the blank line, in order.\<close>

fun headers_of :: "chunk list \<Rightarrow> (string \<times> string) list" where
  "headers_of (StatusLine c # cs) = headers_of cs"
| "headers_of (HeaderLine k v # cs) = (k, v) # headers_of cs"
| "headers_of cs = []"

definition header_of :: "string \<Rightarrow> chunk list \<Rightarrow> string option" where
  "header_of k cs = map_of (headers_of cs) k"

text \<open>The body: all bytes written after the blank line.\<close>

fun data :: "chunk list \<Rightarrow> bytes" where
  "data [] = []"
| "data (Data b # cs) = b @ data cs"
| "data (c # cs) = data cs"

fun body_of :: "chunk list \<Rightarrow> bytes" where
  "body_of [] = []"
| "body_of (BlankLine # cs) = data cs"
| "body_of (c # cs) = body_of cs"

text \<open>The three paths the handler knows.\<close>

definition known_paths :: "string set" where
  "known_paths = {''/'', ''/governance-methodology.txt'', ''/governance-methodology.md''}"

text \<open>
  A concrete library and directory, for instances of the theorems: the directory
  holds the script and the two backing files, and no index file.
\<close>

definition example_framework :: framework where
  "example_framework =
     \<lparr>version_string = ''SimpleHTTP/0.6 Python/3.11.10'',
      date_time_string = ''Tue, 03 Nov 2026 12:00:00 GMT'',
      error_page = (\<lambda>code message explain. ''<html>error</html>''),
      repr = (\<lambda>s. [CHR 0x27] @ s @ [CHR 0x27]),
      isdir = True,
      isfile = (\<lambda>name. name \<in> set [''download-server.py'',
                 ''formatted-governance-methodology.md'', ''governance-power-methodology.txt'']),
      listdir = Some [''download-server.py'', ''formatted-governance-methodology.md'',
                 ''governance-power-methodology.txt''],
      listing_page = (\<lambda>names. ''<html>listing</html>''),
      getfilesystemencoding = ''utf-8'',
      send_head = (\<lambda>self. [])\<rparr>"

definition example_files :: "string \<Rightarrow> bytes option" where
  "example_files =
     (\<lambda>name. if name = ''governance-power-methodology.txt'' then Some ''plain''
             else if name = ''formatted-governance-methodology.md'' then Some ''# md''
             else None)"

definition no_files :: "string \<Rightarrow> bytes option" where
  "no_files = (\<lambda>name. None)"

text \<open>A request with the given request line, ended by CR LF, and sound header lines.\<close>

definition example_request :: "string \<Rightarrow> request" where
  "example_request line =
     \<lparr>date = ''Tue, 03 Nov 2026 12:00:00 GMT'',
      raw_requestline = line @ [CHR 0x0D, CHR 0x0A],
      header_fault = None\<rparr>"

section \<open>Properties\<close>

subsection \<open>Auxiliary facts\<close>

lemma files_ops [simp]:
  "files (send_response_only code self) = files self"
  "files (send_header k v self) = files self"
  "files (flush_headers self) = files self"
  "files (end_headers self) = files self"
  "files (wfile_write b self) = files self"
  by (simp_all add: send_response_only_def send_header_def flush_headers_def
        end_headers_def wfile_write_def)

lemma files_send_response [simp]: "files (send_response fw code self) = files self"
  by (simp add: send_response_def Let_def)

lemma send_error_files [simp]:
  "files (send_error fw code message explain self) = files self"
  by (simp add: send_error_def Let_def)

lemma list_directory_files: "files (list_directory fw self) = files self"
  by (simp add: list_directory_def Let_def split: option.split)

lemma do_GET_files: "files (snd (do_GET fw self)) = files self"
  by (simp add: do_GET_def open_rb_def Let_def split: option.split)

lemma do_HEAD_files: "files (snd (do_HEAD fw self)) = files self"
  by (simp add: do_HEAD_def list_directory_files)

lemma parse_request_files: "files (snd (parse_request fw rq self)) = files self"
  by (simp add: parse_request_def Let_def split: option.split header_fault.split)

lemma handle_one_request_files: "files (snd (handle_one_request fw rq self)) = files self"
proof -
  obtain b s where p: "parse_request fw rq self = (b, s)"
    by (cases "parse_request fw rq self")
  then have "files s = files self"
    using parse_request_files [of fw rq self] by simp
  then show ?thesis
    by (cases b) (simp_all add: handle_one_request_def p do_GET_files do_HEAD_files)
qed

lemma process_request_files: "snd (process_request fw rq fs) = fs"
  by (simp add: process_request_def Let_def handle_one_request_files new_handler_def)

lemma serve_forever_alone:
  "serve_forever fw rqs fs = (map (\<lambda>rq. fst (process_request fw rq fs)) rqs, fs)"
proof (induction rqs)
  case Nil
  show ?case by simp
next
  case (Cons rq rqs)
  obtain r where pr: "process_request fw rq fs = (r, fs)"
    using process_request_files [of fw rq fs] by (metis prod.collapse)
  show ?case by (simp add: pr Cons.IH)
qed

lemma parse_request_empty:
  "raw_requestline rq = [] \<Longrightarrow> \<not> fst (parse_request fw rq self)"
  by (simp add: parse_request_def rstrip_def split_whitespace_def Let_def)

lemma parse_request_unsent:
  "fst (parse_request fw rq self0) \<longrightarrow>
     wfile (snd (parse_request fw rq self0)) = wfile self0 \<and>
     headers_buffer (snd (parse_request fw rq self0)) = headers_buffer self0"
  by (simp add: parse_request_def Let_def split: option.split header_fault.split)

lemma parse_request_True:
  assumes "parse_request fw rq self0 = (True, self)"
  shows "wfile self = wfile self0" and "headers_buffer self = headers_buffer self0"
    and "files self = files self0" and "raw_requestline rq \<noteq> []"
proof -
  show "raw_requestline rq \<noteq> []"
    using assms parse_request_empty [of rq fw self0] by auto
  show "files self = files self0"
    using assms parse_request_files [of fw rq self0] by simp
  show "wfile self = wfile self0" and "headers_buffer self = headers_buffer self0"
    using assms parse_request_unsent [of fw rq self0] by simp_all
qed

lemma accepted_fresh:
  assumes "accepted fw rq fs self"
  shows "wfile self = []" and "headers_buffer self = []" and "files self = fs"
  using assms parse_request_True [of fw rq "new_handler fs" self]
  by (simp_all add: accepted_def new_handler_def)

lemma handle_accepted:
  assumes "accepted fw rq fs self"
  shows "handle_one_request fw rq (new_handler fs) =
     (if command self = Some ''GET'' then do_GET fw self
      else if command self = Some ''HEAD'' then do_HEAD fw self
      else (None, send_error fw 501
              (Some (''Unsupported method ('' @
                     repr fw (case command self of None \<Rightarrow> [] | Some c \<Rightarrow> c) @ '')''))
              None self))"
  using assms parse_request_True(4) [of fw rq "new_handler fs" self]
  by (simp add: accepted_def handle_one_request_def)

lemmas base_defs =
  send_response_def send_response_only_def send_header_def end_headers_def
  flush_headers_def wfile_write_def open_rb_def

lemma send_error_wfile:
  assumes "headers_buffer self = []" and "wfile self = []"
    and "200 \<le> code" and "code \<notin> {204, 205, 304}"
  shows "wfile (send_error fw code message explain self) =
     (if request_version self = ''HTTP/0.9'' then []
      else [StatusLine code,
            HeaderLine ''Server'' (version_string fw),
            HeaderLine ''Date'' (date_time_string fw),
            HeaderLine ''Connection'' ''close'',
            HeaderLine ''Content-Type'' ''text/html;charset=utf-8'',
            HeaderLine ''Content-Length''
              (str (int (length (error_page fw code message explain)))),
            BlankLine]) @
     (if command self \<noteq> Some ''HEAD'' \<and> error_page fw code message explain \<noteq> []
      then [Data (error_page fw code message explain)] else [])"
proof (cases "request_version self = ''HTTP/0.9''")
  case True
  with assms show ?thesis by (simp add: send_error_def base_defs Let_def)
next
  case False
  with assms show ?thesis by (simp add: send_error_def base_defs Let_def)
qed

lemma do_GET_txt:
  assumes "path self = ''/governance-methodology.txt''"
    and "headers_buffer self = []" and "wfile self = []"
  shows "fst (do_GET fw self) =
           (case files self ''governance-power-methodology.txt'' of
              None \<Rightarrow> Some OSError | Some b \<Rightarrow> None)"
    and "wfile (snd (do_GET fw self)) =
           (if request_version self = ''HTTP/0.9'' then []
            else [StatusLine 200,
                  HeaderLine ''Server'' (version_string fw),
                  HeaderLine ''Date'' (date_time_string fw),
                  HeaderLine ''Content-Type'' ''text/plain'',
                  HeaderLine ''Content-Disposition''
                    ''attachment; filename=\"islanddao-governance-methodology.txt\"'',
                  BlankLine]) @
           (case files self ''governance-power-methodology.txt'' of
              None \<Rightarrow> [] | Some b \<Rightarrow> [Data b])"
proof -
  show "fst (do_GET fw self) =
           (case files self ''governance-power-methodology.txt'' of
              None \<Rightarrow> Some OSError | Some b \<Rightarrow> None)"
    using assms(1) by (simp add: do_GET_def open_rb_def Let_def split: option.split)
  show "wfile (snd (do_GET fw self)) =
           (if request_version self = ''HTTP/0.9'' then []
            else [StatusLine 200,
                  HeaderLine ''Server'' (version_string fw),
                  HeaderLine ''Date'' (date_time_string fw),
                  HeaderLine ''Content-Type'' ''text/plain'',
                  HeaderLine ''Content-Disposition''
                    ''attachment; filename=\"islanddao-governance-methodology.txt\"'',
                  BlankLine]) @
           (case files self ''governance-power-methodology.txt'' of
              None \<Rightarrow> [] | Some b \<Rightarrow> [Data b])"
  proof (cases "request_version self = ''HTTP/0.9''")
    case True
    with assms show ?thesis by (simp add: do_GET_def base_defs Let_def split: option.split)
  next
    case False
    with assms show ?thesis by (simp add: do_GET_def base_defs Let_def split: option.split)
  qed
qed

lemma do_GET_md:
  assumes "path self = ''/governance-methodology.md''"
    and "headers_buffer self = []" and "wfile self = []"
  shows "fst (do_GET fw self) =
           (case files self ''formatted-governance-methodology.md'' of
              None \<Rightarrow> Some OSError | Some b \<Rightarrow> None)"
    and "wfile (snd (do_GET fw self)) =
           (if request_version self = ''HTTP/0.9'' then []
            else [StatusLine 200,
                  HeaderLine ''Server'' (version_string fw),
                  HeaderLine ''Date'' (date_time_string fw),
                  HeaderLine ''Content-Type'' ''text/markdown'',
                  HeaderLine ''Content-Disposition''
                    ''attachment; filename=\"islanddao-governance-methodology.md\"'',
                  BlankLine]) @
           (case files self ''formatted-governance-methodology.md'' of
              None \<Rightarrow> [] | Some b \<Rightarrow> [Data b])"
proof -
  show "fst (do_GET fw self) =
           (case files self ''formatted-governance-methodology.md'' of
              None \<Rightarrow> Some OSError | Some b \<Rightarrow> None)"
    using assms(1) by (simp add: do_GET_def open_rb_def Let_def split: option.split)
  show "wfile (snd (do_GET fw self)) =
           (if request_version self = ''HTTP/0.9'' then []
            else [StatusLine 200,
                  HeaderLine ''Server'' (version_string fw),
                  HeaderLine ''Date'' (date_time_string fw),
                  HeaderLine ''Content-Type'' ''text/markdown'',
                  HeaderLine ''Content-Disposition''
                    ''attachment; filename=\"islanddao-governance-methodology.md\"'',
                  BlankLine]) @
           (case files self ''formatted-governance-methodology.md'' of
              None \<Rightarrow> [] | Some b \<Rightarrow> [Data b])"
  proof (cases "request_version self = ''HTTP/0.9''")
    case True
    with assms show ?thesis by (simp add: do_GET_def base_defs Let_def split: option.split)
  next
    case False
    with assms show ?thesis by (simp add: do_GET_def base_defs Let_def split: option.split)
  qed
qed

lemma do_GET_root:
  assumes "path self = ''/''" and "headers_buffer self = []" and "wfile self = []"
  shows "fst (do_GET fw self) = None"
    and "wfile (snd (do_GET fw self)) =
           (if request_version self = ''HTTP/0.9'' then []
            else [StatusLine 200,
                  HeaderLine ''Server'' (version_string fw),
                  HeaderLine ''Date'' (date_time_string fw),
                  HeaderLine ''Content-Type'' ''text/html'',
                  BlankLine]) @ [Data html]"
proof -
  show "fst (do_GET fw self) = None"
    using assms(1) by (simp add: do_GET_def Let_def)
  show "wfile (snd (do_GET fw self)) =
           (if request_version self = ''HTTP/0.9'' then []
            else [StatusLine 200,
                  HeaderLine ''Server'' (version_string fw),
                  HeaderLine ''Date'' (date_time_string fw),
                  HeaderLine ''Content-Type'' ''text/html'',
                  BlankLine]) @ [Data html]"
  proof (cases "request_version self = ''HTTP/0.9''")
    case True
    with assms show ?thesis by (simp add: do_GET_def base_defs Let_def)
  next
    case False
    with assms show ?thesis by (simp add: do_GET_def base_defs Let_def)
  qed
qed

lemma do_GET_other:
  "path self \<notin> known_paths \<Longrightarrow> do_GET fw self = (None, send_error fw 404 None None self)"
  by (simp add: do_GET_def known_paths_def)

lemma list_directory_wfile:
  assumes "listdir fw = Some names" and "request_version self \<noteq> ''HTTP/0.9''"
    and "headers_buffer self = []" and "wfile self = []"
  shows "wfile (list_directory fw self) =
     [StatusLine 200,
      HeaderLine ''Server'' (version_string fw),
      HeaderLine ''Date'' (date_time_string fw),
      HeaderLine ''Content-type'' (''text/html; charset='' @ getfilesystemencoding fw),
      HeaderLine ''Content-Length'' (str (int (length (listing_page fw names)))),
      BlankLine]"
  using assms by (simp add: list_directory_def base_defs Let_def)

lemma query_not_known: "k \<in> known_paths \<Longrightarrow> k @ CHR ''?'' # q \<notin> known_paths"
  by (auto simp add: known_paths_def)

lemma parse_request_path:
  "fst (parse_request fw rq self0) \<longrightarrow>
     path (snd (parse_request fw rq self0)) =
       (if startswith (request_target rq) ''//''
        then CHR ''/'' # lstrip ''/'' (request_target rq) else request_target rq)"
  by (simp add: parse_request_def request_target_def Let_def
           split: option.split header_fault.split)

lemmas eval_defs =
  accepted_def passed_def parse_request_def Let_def example_request_def rstrip_def
  split_whitespace_def isspace_def version_number_def startswith_def lstrip_def
  isdigit_def int_of_digits_def new_handler_def

lemma accepted_examples:
  "accepted fw (example_request ''GET /governance-methodology.txt HTTP/1.1'') fs
     (passed ''GET'' ''/governance-methodology.txt'' ''HTTP/1.1'' fs)"
  "accepted fw (example_request ''GET /governance-methodology.md HTTP/1.1'') fs
     (passed ''GET'' ''/governance-methodology.md'' ''HTTP/1.1'' fs)"
  "accepted fw (example_request ''GET / HTTP/1.1'') fs (passed ''GET'' ''/'' ''HTTP/1.1'' fs)"
  "accepted fw (example_request ''GET /unknown HTTP/1.1'') fs
     (passed ''GET'' ''/unknown'' ''HTTP/1.1'' fs)"
  "accepted fw (example_request ''POST / HTTP/1.1'') fs (passed ''POST'' ''/'' ''HTTP/1.1'' fs)"
  "accepted fw (example_request ''HEAD / HTTP/1.1'') fs (passed ''HEAD'' ''/'' ''HTTP/1.1'' fs)"
  "accepted fw (example_request ''GET /governance-methodology.txt?x=1 HTTP/1.1'') fs
     (passed ''GET'' ''/governance-methodology.txt?x=1'' ''HTTP/1.1'' fs)"
  "accepted fw (example_request ''GET /?x=1 HTTP/1.1'') fs
     (passed ''GET'' ''/?x=1'' ''HTTP/1.1'' fs)"
  "accepted fw (example_request ''GET // HTTP/1.1'') fs (passed ''GET'' ''/'' ''HTTP/1.1'' fs)"
  "accepted fw (example_request ''GET /governance-methodology.txt'') fs
     (passed ''GET'' ''/governance-methodology.txt'' ''HTTP/0.9'' fs)"
  "accepted fw (example_request ''GET /governance-methodology.md'') fs
     (passed ''GET'' ''/governance-methodology.md'' ''HTTP/0.9'' fs)"
  "accepted fw (example_request ''GET /'') fs (passed ''GET'' ''/'' ''HTTP/0.9'' fs)"
  "accepted fw (example_request ''GET /unknown'') fs (passed ''GET'' ''/unknown'' ''HTTP/0.9'' fs)"
  "accepted fw (example_request ''GET /?x=1'') fs (passed ''GET'' ''/?x=1'' ''HTTP/0.9'' fs)"
  by (simp_all add: eval_defs)

lemma passed_fields [simp]:
  "command (passed c p v fs) = Some c"
  "path (passed c p v fs) = p"
  "request_version (passed c p v fs) = v"
  "headers_buffer (passed c p v fs) = []"
  "wfile (passed c p v fs) = []"
  "files (passed c p v fs) = fs"
  by (simp_all add: passed_def new_handler_def)

text \<open>What a request that reaches \<^verbatim>\<open>do_GET\<close> gets, path by path.\<close>

lemma reply_txt:
  assumes "accepted fw rq fs self" and "command self = Some ''GET''"
    and "path self = ''/governance-methodology.txt''"
  shows "fst (handle_one_request fw rq (new_handler fs)) =
           (case fs ''governance-power-methodology.txt'' of
              None \<Rightarrow> Some OSError | Some b \<Rightarrow> None)"
    and "wfile (snd (handle_one_request fw rq (new_handler fs))) =
           (if request_version self = ''HTTP/0.9'' then []
            else [StatusLine 200,
                  HeaderLine ''Server'' (version_string fw),
                  HeaderLine ''Date'' (date_time_string fw),
                  HeaderLine ''Content-Type'' ''text/plain'',
                  HeaderLine ''Content-Disposition''
                    ''attachment; filename=\"islanddao-governance-methodology.txt\"'',
                  BlankLine]) @
           (case fs ''governance-power-methodology.txt'' of
              None \<Rightarrow> [] | Some b \<Rightarrow> [Data b])"
  using assms accepted_fresh [OF assms(1)] do_GET_txt [of self fw]
  by (simp_all add: handle_accepted)

lemma reply_md:
  assumes "accepted fw rq fs self" and "command self = Some ''GET''"
    and "path self = ''/governance-methodology.md''"
  shows "fst (handle_one_request fw rq (new_handler fs)) =
           (case fs ''formatted-governance-methodology.md'' of
              None \<Rightarrow> Some OSError | Some b \<Rightarrow> None)"
    and "wfile (snd (handle_one_request fw rq (new_handler fs))) =
           (if request_version self = ''HTTP/0.9'' then []
            else [StatusLine 200,
                  HeaderLine ''Server'' (version_string fw),
                  HeaderLine ''Date'' (date_time_string fw),
                  HeaderLine ''Content-Type'' ''text/markdown'',
                  HeaderLine ''Content-Disposition''
                    ''attachment; filename=\"islanddao-governance-methodology.md\"'',
                  BlankLine]) @
           (case fs ''formatted-governance-methodology.md'' of
              None \<Rightarrow> [] | Some b \<Rightarrow> [Data b])"
  using assms accepted_fresh [OF assms(1)] do_GET_md [of self fw]
  by (simp_all add: handle_accepted)

lemma reply_root:
  assumes "accepted fw rq fs self" and "command self = Some ''GET''" and "path self = ''/''"
  shows "fst (handle_one_request fw rq (new_handler fs)) = None"
    and "wfile (snd (handle_one_request fw rq (new_handler fs))) =
           (if request_version self = ''HTTP/0.9'' then []
            else [StatusLine 200,
                  HeaderLine ''Server'' (version_string fw),
                  HeaderLine ''Date'' (date_time_string fw),
                  HeaderLine ''Content-Type'' ''text/html'',
                  BlankLine]) @ [Data html]"
  using assms accepted_fresh [OF assms(1)] do_GET_root [of self fw]
  by (simp_all add: handle_accepted)

lemma reply_other:
  assumes "accepted fw rq fs self" and "command self = Some ''GET''"
    and "path self \<notin> known_paths"
  shows "fst (handle_one_request fw rq (new_handler fs)) = None"
    and "wfile (snd (handle_one_request fw rq (new_handler fs))) =
           (if request_version self = ''HTTP/0.9'' then []
            else [StatusLine 404,
                  HeaderLine ''Server'' (version_string fw),
                  HeaderLine ''Date'' (date_time_string fw),
                  HeaderLine ''Connection'' ''close'',
                  HeaderLine ''Content-Type'' ''text/html;charset=utf-8'',
                  HeaderLine ''Content-Length''
                    (str (int (length (error_page fw 404 None None)))),
                  BlankLine]) @
           (if error_page fw 404 None None \<noteq> []
            then [Data (error_page fw 404 None None)] else [])"
  using assms accepted_fresh [OF assms(1)]
  by (simp_all add: handle_accepted do_GET_other send_error_wfile)

lemma reply_unsupported:
  assumes "accepted fw rq fs self" and "command self \<noteq> Some ''GET''"
    and "command self \<noteq> Some ''HEAD''" and "request_version self \<noteq> ''HTTP/0.9''"
  shows "status_of (wfile (snd (handle_one_request fw rq (new_handler fs)))) = Some 501"
  using assms accepted_fresh [OF assms(1)]
  by (simp add: handle_accepted send_error_wfile)

lemma reply_head_root:
  assumes "accepted fw rq fs self" and "command self = Some ''HEAD''" and "path self = ''/''"
    and "request_version self \<noteq> ''HTTP/0.9''"
    and "isdir fw" and "\<not> isfile fw ''index.html''" and "\<not> isfile fw ''index.htm''"
    and "listdir fw = Some names"
  shows "status_of (wfile (snd (handle_one_request fw rq (new_handler fs)))) = Some 200"
  using assms accepted_fresh [OF assms(1)]
  by (simp add: handle_accepted do_HEAD_def list_directory_wfile)

lemma sublist_skip: "sublist xs ys \<Longrightarrow> sublist xs (ps @ ys)"
  by (metis append_assoc sublist_def)

lemma html_links:
  "sublist ''/governance-methodology.txt'' html \<and> sublist ''/governance-methodology.md'' html"
  unfolding html_def by (intro conjI sublist_append_rightI sublist_skip)

text \<open>The encoded page has the 886 bytes of the source literal.\<close>

lemma html_length: "length html = 886"
  by (simp add: html_def page_facing_up_def)

lemma str_8080: "str 8080 = ''8080''"
  by (simp add: str_def digit_def str_nat.simps [of 8080] str_nat.simps [of 808]
        str_nat.simps [of 80] str_nat.simps [of 8])

lemma str_PORT: "str PORT = ''8080''"
  unfolding PORT_def by (rule str_8080)

subsection \<open>The two downloads\<close>

text \<open>
  Claim C1, as stated: every GET request whose path is exactly
  \<^verbatim>\<open>/governance-methodology.txt\<close> is answered with status 200 and the two headers.
  This fails for a request line without a version (\<^verbatim>\<open>GET /governance-methodology.txt\<close>,
  an HTTP/0.9 request): the library then writes neither status line nor headers,
  and the client receives the bytes of the file alone.
\<close>

theorem txt_download_without_version:
  "status_of (wfile (snd (handle_one_request example_framework
      (example_request ''GET /governance-methodology.txt'') (new_handler example_files)))) = None \<and>
   wfile (snd (handle_one_request example_framework
      (example_request ''GET /governance-methodology.txt'') (new_handler example_files))) =
     [Data ''plain'']"
  using reply_txt(2) [OF accepted_examples(10) [of example_framework example_files]]
  by (simp add: example_files_def)

text \<open>
  Claim C1, amended. Every GET request whose path is exactly
  \<^verbatim>\<open>/governance-methodology.txt\<close> and whose request line carries a version other than
  HTTP/0.9 is answered with status 200, \<^verbatim>\<open>Content-Type: text/plain\<close>, a
  \<^verbatim>\<open>Content-Disposition\<close> header equal to
  \<^verbatim>\<open>attachment; filename="islanddao-governance-methodology.txt"\<close>, and a body that is
  byte for byte the contents of \<^verbatim>\<open>governance-power-methodology.txt\<close> as read while
  the request is handled. Status and headers do not depend on the file; the body
  is the file's contents whenever the file can be read, and then no exception
  leaves the handler.
\<close>

theorem txt_download_response:
  assumes "accepted fw rq fs self" and "command self = Some ''GET''"
    and "path self = ''/governance-methodology.txt''"
    and "request_version self \<noteq> ''HTTP/0.9''"
  shows
  "let r = handle_one_request fw rq (new_handler fs)
   in status_of (wfile (snd r)) = Some 200 \<and>
      header_of ''Content-Type'' (wfile (snd r)) = Some ''text/plain'' \<and>
      header_of ''Content-Disposition'' (wfile (snd r)) =
        Some ''attachment; filename=\"islanddao-governance-methodology.txt\"'' \<and>
      (\<forall>b. fs ''governance-power-methodology.txt'' = Some b \<longrightarrow>
           fst r = None \<and> body_of (wfile (snd r)) = b)"
  using assms(4) by (simp add: Let_def reply_txt [OF assms(1-3)] header_of_def)

theorem txt_download_response_witness:
  "accepted example_framework (example_request ''GET /governance-methodology.txt HTTP/1.1'')
     example_files (passed ''GET'' ''/governance-methodology.txt'' ''HTTP/1.1'' example_files) \<and>
   ''HTTP/1.1'' \<noteq> ''HTTP/0.9'' \<and>
   example_files ''governance-power-methodology.txt'' = Some ''plain'' \<and>
   status_of (wfile (snd (handle_one_request example_framework
     (example_request ''GET /governance-methodology.txt HTTP/1.1'')
     (new_handler example_files)))) = Some 200 \<and>
   body_of (wfile (snd (handle_one_request example_framework
     (example_request ''GET /governance-methodology.txt HTTP/1.1'')
     (new_handler example_files)))) = ''plain''"
  using txt_download_response [OF accepted_examples(1) [of example_framework example_files]]
  by (simp add: accepted_examples(1) example_files_def Let_def)

text \<open>
  Claim C2, as stated: every GET request whose path is exactly
  \<^verbatim>\<open>/governance-methodology.md\<close> is answered with status 200 and the two headers.
  This fails for a request line without a version: the client receives the bytes
  of the file alone.
\<close>

theorem md_download_without_version:
  "status_of (wfile (snd (handle_one_request example_framework
      (example_request ''GET /governance-methodology.md'') (new_handler example_files)))) = None \<and>
   wfile (snd (handle_one_request example_framework
      (example_request ''GET /governance-methodology.md'') (new_handler example_files))) =
     [Data ''# md'']"
  using reply_md(2) [OF accepted_examples(11) [of example_framework example_files]]
  by (simp add: example_files_def)

text \<open>
  Claim C2, amended. Every GET request whose path is exactly
  \<^verbatim>\<open>/governance-methodology.md\<close> and whose request line carries a version other than
  HTTP/0.9 is answered with status 200, \<^verbatim>\<open>Content-Type: text/markdown\<close>, a
  \<^verbatim>\<open>Content-Disposition\<close> header equal to
  \<^verbatim>\<open>attachment; filename="islanddao-governance-methodology.md"\<close>, and a body that is
  byte for byte the contents of \<^verbatim>\<open>formatted-governance-methodology.md\<close> as read
  while the request is handled.
\<close>

theorem md_download_response:
  assumes "accepted fw rq fs self" and "command self = Some ''GET''"
    and "path self = ''/governance-methodology.md''"
    and "request_version self \<noteq> ''HTTP/0.9''"
  shows
  "let r = handle_one_request fw rq (new_handler fs)
   in status_of (wfile (snd r)) = Some 200 \<and>
      header_of ''Content-Type'' (wfile (snd r)) = Some ''text/markdown'' \<and>
      header_of ''Content-Disposition'' (wfile (snd r)) =
        Some ''attachment; filename=\"islanddao-governance-methodology.md\"'' \<and>
      (\<forall>b. fs ''formatted-governance-methodology.md'' = Some b \<longrightarrow>
           fst r = None \<and> body_of (wfile (snd r)) = b)"
  using assms(4) by (simp add: Let_def reply_md [OF assms(1-3)] header_of_def)

theorem md_download_response_witness:
  "accepted example_framework (example_request ''GET /governance-methodology.md HTTP/1.1'')
     example_files (passed ''GET'' ''/governance-methodology.md'' ''HTTP/1.1'' example_files) \<and>
   ''HTTP/1.1'' \<noteq> ''HTTP/0.9'' \<and>
   example_files ''formatted-governance-methodology.md'' = Some ''# md'' \<and>
   status_of (wfile (snd (handle_one_request example_framework
     (example_request ''GET /governance-methodology.md HTTP/1.1'')
     (new_handler example_files)))) = Some 200 \<and>
   body_of (wfile (snd (handle_one_request example_framework
     (example_request ''GET /governance-methodology.md HTTP/1.1'')
     (new_handler example_files)))) = ''# md''"
  using md_download_response [OF accepted_examples(2) [of example_framework example_files]]
  by (simp add: accepted_examples(2) example_files_def Let_def)

subsection \<open>The landing page and the other requests\<close>

text \<open>
  Claim C3, as stated: every GET request whose path is exactly \<^verbatim>\<open>/\<close> is answered
  with status 200 and \<^verbatim>\<open>Content-Type: text/html\<close>. This fails for the request line
  \<^verbatim>\<open>GET /\<close> without a version: the client receives the page alone.
\<close>

theorem landing_page_without_version:
  "status_of (wfile (snd (handle_one_request example_framework
      (example_request ''GET /'') (new_handler example_files)))) = None \<and>
   wfile (snd (handle_one_request example_framework
      (example_request ''GET /'') (new_handler example_files))) = [Data html]"
  using reply_root(2) [OF accepted_examples(12) [of example_framework example_files]]
  by simp

text \<open>
  Claim C3, amended. Every GET request whose path is exactly \<^verbatim>\<open>/\<close> and whose request
  line carries a version other than HTTP/0.9 is answered with status 200,
  \<^verbatim>\<open>Content-Type: text/html\<close>, and the fixed page as body, which contains both
  \<^verbatim>\<open>/governance-methodology.txt\<close> and \<^verbatim>\<open>/governance-methodology.md\<close>.
\<close>

theorem landing_page_response:
  assumes "accepted fw rq fs self" and "command self = Some ''GET''" and "path self = ''/''"
    and "request_version self \<noteq> ''HTTP/0.9''"
  shows
  "let r = handle_one_request fw rq (new_handler fs)
   in fst r = None \<and>
      status_of (wfile (snd r)) = Some 200 \<and>
      header_of ''Content-Type'' (wfile (snd r)) = Some ''text/html'' \<and>
      body_of (wfile (snd r)) = html \<and>
      sublist ''/governance-methodology.txt'' (body_of (wfile (snd r))) \<and>
      sublist ''/governance-methodology.md'' (body_of (wfile (snd r)))"
  using assms(4) html_links
  by (simp add: Let_def reply_root [OF assms(1-3)] header_of_def)

theorem landing_page_response_witness:
  "accepted example_framework (example_request ''GET / HTTP/1.1'') example_files
     (passed ''GET'' ''/'' ''HTTP/1.1'' example_files) \<and>
   ''HTTP/1.1'' \<noteq> ''HTTP/0.9'' \<and>
   status_of (wfile (snd (handle_one_request example_framework
     (example_request ''GET / HTTP/1.1'') (new_handler example_files)))) = Some 200 \<and>
   body_of (wfile (snd (handle_one_request example_framework
     (example_request ''GET / HTTP/1.1'') (new_handler example_files)))) = html"
  using landing_page_response [OF accepted_examples(3) [of example_framework example_files]]
  by (simp add: accepted_examples(3) Let_def)

text \<open>
  Claim C4, as stated: a request whose path is none of the three known paths, or
  whose method is not GET, is answered with status 404. Three requests show
  otherwise. \<^verbatim>\<open>POST / HTTP/1.1\<close>: the class defines no \<^verbatim>\<open>do_POST\<close>, and the library
  answers 501 itself. \<^verbatim>\<open>HEAD / HTTP/1.1\<close>: the inherited \<^verbatim>\<open>do_HEAD\<close> serves the working
  directory, here with status 200. \<^verbatim>\<open>GET /unknown\<close> without a version: the error
  page is sent without a status line.
\<close>

theorem post_head_and_versionless_not_404:
  "status_of (wfile (snd (handle_one_request example_framework
      (example_request ''POST / HTTP/1.1'') (new_handler example_files)))) = Some 501 \<and>
   status_of (wfile (snd (handle_one_request example_framework
      (example_request ''HEAD / HTTP/1.1'') (new_handler example_files)))) = Some 200 \<and>
   status_of (wfile (snd (handle_one_request example_framework
      (example_request ''GET /unknown'') (new_handler example_files)))) = None"
proof -
  have "status_of (wfile (snd (handle_one_request example_framework
      (example_request ''POST / HTTP/1.1'') (new_handler example_files)))) = Some 501"
    by (rule reply_unsupported [OF accepted_examples(5) [of example_framework example_files]]) simp_all
  moreover have "status_of (wfile (snd (handle_one_request example_framework
      (example_request ''HEAD / HTTP/1.1'') (new_handler example_files)))) = Some 200"
    by (rule reply_head_root [OF accepted_examples(6) [of example_framework example_files]])
       (simp_all add: example_framework_def)
  moreover have "status_of (wfile (snd (handle_one_request example_framework
      (example_request ''GET /unknown'') (new_handler example_files)))) = None"
    using reply_other(2) [OF accepted_examples(13) [of example_framework example_files]]
    by (simp add: known_paths_def example_framework_def)
  ultimately show ?thesis by simp
qed

text \<open>
  Claim C4, amended. Of the requests that the library passes on (a request line of
  at most 65536 bytes that \<^verbatim>\<open>parse_request\<close> accepts) with a version other than
  HTTP/0.9: a GET request whose path is not exactly one of the three known paths
  is answered with status 404; a request whose method is neither GET nor HEAD
  (POST to any of the three known paths, for one) is answered with status 501,
  whatever its path; a HEAD request goes to the inherited \<^verbatim>\<open>do_HEAD\<close>, which for the
  path \<^verbatim>\<open>/\<close> of a directory that can be listed and holds neither \<^verbatim>\<open>index.html\<close> nor
  \<^verbatim>\<open>index.htm\<close> answers with status 200.
\<close>

theorem unknown_path_404_other_method_501:
  assumes "accepted fw rq fs self" and "request_version self \<noteq> ''HTTP/0.9''"
  shows
  "let w = wfile (snd (handle_one_request fw rq (new_handler fs)))
   in (command self = Some ''GET'' \<and> path self \<notin> known_paths \<longrightarrow> status_of w = Some 404) \<and>
      (command self \<noteq> Some ''GET'' \<and> command self \<noteq> Some ''HEAD'' \<longrightarrow>
         status_of w = Some 501) \<and>
      (command self = Some ''HEAD'' \<and> path self = ''/'' \<and> isdir fw \<and>
       \<not> isfile fw ''index.html'' \<and> \<not> isfile fw ''index.htm'' \<and> listdir fw \<noteq> None \<longrightarrow>
         status_of w = Some 200)"
  using assms(2) reply_other(2) [OF assms(1)] reply_unsupported [OF assms(1)]
    reply_head_root [OF assms(1)]
  by (auto simp add: Let_def)

theorem unknown_path_404_other_method_501_witness:
  "accepted example_framework (example_request ''GET /unknown HTTP/1.1'') example_files
     (passed ''GET'' ''/unknown'' ''HTTP/1.1'' example_files) \<and>
   accepted example_framework (example_request ''POST / HTTP/1.1'') example_files
     (passed ''POST'' ''/'' ''HTTP/1.1'' example_files) \<and>
   accepted example_framework (example_request ''HEAD / HTTP/1.1'') example_files
     (passed ''HEAD'' ''/'' ''HTTP/1.1'' example_files) \<and>
   ''HTTP/1.1'' \<noteq> ''HTTP/0.9'' \<and> ''/unknown'' \<notin> known_paths \<and>
   status_of (wfile (snd (handle_one_request example_framework
      (example_request ''GET /unknown HTTP/1.1'') (new_handler example_files)))) = Some 404 \<and>
   status_of (wfile (snd (handle_one_request example_framework
      (example_request ''POST / HTTP/1.1'') (new_handler example_files)))) = Some 501 \<and>
   status_of (wfile (snd (handle_one_request example_framework
      (example_request ''HEAD / HTTP/1.1'') (new_handler example_files)))) = Some 200"
  using unknown_path_404_other_method_501
          [OF accepted_examples(4) [of example_framework example_files]]
        unknown_path_404_other_method_501
          [OF accepted_examples(5) [of example_framework example_files]]
        unknown_path_404_other_method_501
          [OF accepted_examples(6) [of example_framework example_files]]
  by (simp add: accepted_examples Let_def known_paths_def example_framework_def)

text \<open>
  Claim C10, as stated: routing compares the entire request target, query string
  included, and a known path with a query string appended gets the 404 response.
  Two requests show otherwise. \<^verbatim>\<open>GET // HTTP/1.1\<close>: the target \<^verbatim>\<open>//\<close> is none of the
  known paths, but \<^verbatim>\<open>parse_request\<close> reduces it to \<^verbatim>\<open>/\<close>, and the landing page is
  sent. \<^verbatim>\<open>GET /?x=1\<close> without a version: the error page is sent without a status
  line.
\<close>

theorem double_slash_and_versionless_query:
  "request_target (example_request ''GET // HTTP/1.1'') = ''//'' \<and>
   ''//'' \<notin> known_paths \<and>
   status_of (wfile (snd (handle_one_request example_framework
      (example_request ''GET // HTTP/1.1'') (new_handler example_files)))) = Some 200 \<and>
   body_of (wfile (snd (handle_one_request example_framework
      (example_request ''GET // HTTP/1.1'') (new_handler example_files)))) = html \<and>
   status_of (wfile (snd (handle_one_request example_framework
      (example_request ''GET /?x=1'') (new_handler example_files)))) = None"
proof -
  have "request_target (example_request ''GET // HTTP/1.1'') = ''//''"
    by (simp add: request_target_def example_request_def rstrip_def split_whitespace_def
          isspace_def)
  moreover have "''//'' \<notin> known_paths"
    by (simp add: known_paths_def)
  moreover have "wfile (snd (handle_one_request example_framework
      (example_request ''GET // HTTP/1.1'') (new_handler example_files))) =
      [StatusLine 200,
       HeaderLine ''Server'' (version_string example_framework),
       HeaderLine ''Date'' (date_time_string example_framework),
       HeaderLine ''Content-Type'' ''text/html'',
       BlankLine, Data html]"
    using reply_root(2) [OF accepted_examples(9) [of example_framework example_files]]
    by simp
  moreover have "status_of (wfile (snd (handle_one_request example_framework
      (example_request ''GET /?x=1'') (new_handler example_files)))) = None"
    using reply_other(2) [OF accepted_examples(14) [of example_framework example_files]]
    by (simp add: known_paths_def example_framework_def)
  ultimately show ?thesis by simp
qed

text \<open>
  Claim C10, amended. Routing compares the whole of \<^verbatim>\<open>self.path\<close>, query string
  included, where \<^verbatim>\<open>self.path\<close> is the request target with a leading run of slashes
  reduced to a single slash. A GET request, with a version other than HTTP/0.9,
  whose path is a known path followed by \<^verbatim>\<open>?\<close> and a query
  (\<^verbatim>\<open>/governance-methodology.txt?x=1\<close>, \<^verbatim>\<open>/?x=1\<close>) matches no branch and is answered
  with status 404.
\<close>

theorem query_string_not_matched:
  assumes "accepted fw rq fs self" and "command self = Some ''GET''"
    and "request_version self \<noteq> ''HTTP/0.9''"
  shows
  "path self =
     (if startswith (request_target rq) ''//''
      then CHR ''/'' # lstrip ''/'' (request_target rq) else request_target rq) \<and>
   (\<forall>k q. k \<in> known_paths \<and> path self = k @ CHR ''?'' # q \<longrightarrow>
      (let r = handle_one_request fw rq (new_handler fs)
       in fst r = None \<and> status_of (wfile (snd r)) = Some 404))"
proof -
  have "path self =
     (if startswith (request_target rq) ''//''
      then CHR ''/'' # lstrip ''/'' (request_target rq) else request_target rq)"
    using assms(1) parse_request_path [of fw rq "new_handler fs"]
    by (simp add: accepted_def)
  moreover have "fst (handle_one_request fw rq (new_handler fs)) = None \<and>
      status_of (wfile (snd (handle_one_request fw rq (new_handler fs)))) = Some 404"
    if "k \<in> known_paths" and "path self = k @ CHR ''?'' # q" for k q
    using that assms(3) reply_other [OF assms(1,2)] query_not_known [of k q]
    by simp
  ultimately show ?thesis by (auto simp add: Let_def)
qed

theorem query_string_not_matched_witness:
  "accepted example_framework (example_request ''GET /governance-methodology.txt?x=1 HTTP/1.1'')
     example_files
     (passed ''GET'' ''/governance-methodology.txt?x=1'' ''HTTP/1.1'' example_files) \<and>
   accepted example_framework (example_request ''GET /?x=1 HTTP/1.1'') example_files
     (passed ''GET'' ''/?x=1'' ''HTTP/1.1'' example_files) \<and>
   ''HTTP/1.1'' \<noteq> ''HTTP/0.9'' \<and>
   ''/governance-methodology.txt'' \<in> known_paths \<and> ''/'' \<in> known_paths \<and>
   status_of (wfile (snd (handle_one_request example_framework
      (example_request ''GET /governance-methodology.txt?x=1 HTTP/1.1'')
      (new_handler example_files)))) = Some 404 \<and>
   status_of (wfile (snd (handle_one_request example_framework
      (example_request ''GET /?x=1 HTTP/1.1'') (new_handler example_files)))) = Some 404"
proof -
  have a: "\<forall>k q. k \<in> known_paths \<and>
      path (passed ''GET'' ''/governance-methodology.txt?x=1'' ''HTTP/1.1'' example_files) =
        k @ CHR ''?'' # q \<longrightarrow>
      (let r = handle_one_request example_framework
                 (example_request ''GET /governance-methodology.txt?x=1 HTTP/1.1'')
                 (new_handler example_files)
       in fst r = None \<and> status_of (wfile (snd r)) = Some 404)"
    by (rule query_string_not_matched
          [OF accepted_examples(7) [of example_framework example_files], THEN conjunct2])
       simp_all
  have b: "\<forall>k q. k \<in> known_paths \<and>
      path (passed ''GET'' ''/?x=1'' ''HTTP/1.1'' example_files) = k @ CHR ''?'' # q \<longrightarrow>
      (let r = handle_one_request example_framework
                 (example_request ''GET /?x=1 HTTP/1.1'') (new_handler example_files)
       in fst r = None \<and> status_of (wfile (snd r)) = Some 404)"
    by (rule query_string_not_matched
          [OF accepted_examples(8) [of example_framework example_files], THEN conjunct2])
       simp_all
  show ?thesis
    using a [rule_format, of "''/governance-methodology.txt''" "''x=1''"]
      b [rule_format, of "''/''" "''x=1''"]
    by (simp add: accepted_examples known_paths_def Let_def)
qed

subsection \<open>A backing file that cannot be read\<close>

text \<open>
  Claim C6. For a GET request to \<^verbatim>\<open>/governance-methodology.txt\<close> or
  \<^verbatim>\<open>/governance-methodology.md\<close> whose backing file is missing or unreadable, the
  handling fails with the I/O error: the exception leaves \<^verbatim>\<open>do_GET\<close>, and the
  handler sends no status line 500. This holds for every version of the request.
\<close>

theorem unreadable_file_raises:
  assumes "accepted fw rq fs self" and "command self = Some ''GET''"
  shows
  "(path self = ''/governance-methodology.txt'' \<and>
    fs ''governance-power-methodology.txt'' = None \<longrightarrow>
      (let r = handle_one_request fw rq (new_handler fs)
       in fst r = Some OSError \<and> StatusLine 500 \<notin> set (wfile (snd r)))) \<and>
   (path self = ''/governance-methodology.md'' \<and>
    fs ''formatted-governance-methodology.md'' = None \<longrightarrow>
      (let r = handle_one_request fw rq (new_handler fs)
       in fst r = Some OSError \<and> StatusLine 500 \<notin> set (wfile (snd r))))"
  using reply_txt [OF assms] reply_md [OF assms] by (simp add: Let_def)

theorem unreadable_file_raises_witness:
  "accepted example_framework (example_request ''GET /governance-methodology.txt HTTP/1.1'')
     no_files (passed ''GET'' ''/governance-methodology.txt'' ''HTTP/1.1'' no_files) \<and>
   no_files ''governance-power-methodology.txt'' = None \<and>
   fst (handle_one_request example_framework
      (example_request ''GET /governance-methodology.txt HTTP/1.1'')
      (new_handler no_files)) = Some OSError \<and>
   StatusLine 500 \<notin> set (wfile (snd (handle_one_request example_framework
      (example_request ''GET /governance-methodology.txt HTTP/1.1'')
      (new_handler no_files)))) \<and>
   accepted example_framework (example_request ''GET /governance-methodology.md HTTP/1.1'')
     no_files (passed ''GET'' ''/governance-methodology.md'' ''HTTP/1.1'' no_files) \<and>
   no_files ''formatted-governance-methodology.md'' = None \<and>
   fst (handle_one_request example_framework
      (example_request ''GET /governance-methodology.md HTTP/1.1'')
      (new_handler no_files)) = Some OSError \<and>
   StatusLine 500 \<notin> set (wfile (snd (handle_one_request example_framework
      (example_request ''GET /governance-methodology.md HTTP/1.1'')
      (new_handler no_files))))"
  using unreadable_file_raises [OF accepted_examples(1) [of example_framework no_files]]
    unreadable_file_raises [OF accepted_examples(2) [of example_framework no_files]]
  by (simp add: accepted_examples(1,2) no_files_def Let_def)

text \<open>
  Claim C5, as stated: when a GET for a file path fails because the file cannot be
  read, no part of a success response has been committed to the client. This
  fails for \<^verbatim>\<open>GET /governance-methodology.txt HTTP/1.1\<close> in a directory without the
  file: \<^verbatim>\<open>end_headers()\<close> runs before \<^verbatim>\<open>open\<close>, so the status line 200 and the
  headers are on the socket when the exception is raised.
\<close>

theorem missing_file_after_success_head:
  "fst (handle_one_request example_framework
      (example_request ''GET /governance-methodology.txt HTTP/1.1'')
      (new_handler no_files)) = Some OSError \<and>
   status_of (wfile (snd (handle_one_request example_framework
      (example_request ''GET /governance-methodology.txt HTTP/1.1'')
      (new_handler no_files)))) = Some 200 \<and>
   wfile (snd (handle_one_request example_framework
      (example_request ''GET /governance-methodology.txt HTTP/1.1'')
      (new_handler no_files))) \<noteq> wfile (new_handler no_files)"
  using reply_txt [OF accepted_examples(1) [of example_framework no_files]]
  by (simp add: no_files_def new_handler_def)

text \<open>
  Claim C5, amended. Requests are independent: every request of a sequence gets the
  reply it would get if it were handled alone, and the files are afterwards what
  they were. Handling is not atomic when a backing file cannot be read: for a GET
  request with a version other than HTTP/0.9 the exception is raised after the
  status line 200, the \<^verbatim>\<open>Server\<close>, \<^verbatim>\<open>Date\<close>, \<^verbatim>\<open>Content-Type\<close> and
  \<^verbatim>\<open>Content-Disposition\<close> headers and the blank line have been sent, and nothing
  follows them; for an HTTP/0.9 request nothing has been sent when the exception
  is raised.
\<close>

theorem independent_requests_failure_after_head:
  assumes "accepted fw rq fs self" and "command self = Some ''GET''"
  shows
  "serve_forever fw rqs fs = (map (\<lambda>rq. fst (process_request fw rq fs)) rqs, fs) \<and>
   (path self = ''/governance-methodology.txt'' \<and>
    fs ''governance-power-methodology.txt'' = None \<longrightarrow>
      (let r = handle_one_request fw rq (new_handler fs)
       in fst r = Some OSError \<and>
          wfile (snd r) =
            (if request_version self = ''HTTP/0.9'' then []
             else [StatusLine 200,
                   HeaderLine ''Server'' (version_string fw),
                   HeaderLine ''Date'' (date_time_string fw),
                   HeaderLine ''Content-Type'' ''text/plain'',
                   HeaderLine ''Content-Disposition''
                     ''attachment; filename=\"islanddao-governance-methodology.txt\"'',
                   BlankLine]))) \<and>
   (path self = ''/governance-methodology.md'' \<and>
    fs ''formatted-governance-methodology.md'' = None \<longrightarrow>
      (let r = handle_one_request fw rq (new_handler fs)
       in fst r = Some OSError \<and>
          wfile (snd r) =
            (if request_version self = ''HTTP/0.9'' then []
             else [StatusLine 200,
                   HeaderLine ''Server'' (version_string fw),
                   HeaderLine ''Date'' (date_time_string fw),
                   HeaderLine ''Content-Type'' ''text/markdown'',
                   HeaderLine ''Content-Disposition''
                     ''attachment; filename=\"islanddao-governance-methodology.md\"'',
                   BlankLine])))"
  using reply_txt [OF assms] reply_md [OF assms]
  by (simp add: serve_forever_alone Let_def)

theorem independent_requests_failure_after_head_witness:
  "accepted example_framework (example_request ''GET /governance-methodology.txt HTTP/1.1'')
     no_files (passed ''GET'' ''/governance-methodology.txt'' ''HTTP/1.1'' no_files) \<and>
   no_files ''governance-power-methodology.txt'' = None \<and>
   fst (handle_one_request example_framework
      (example_request ''GET /governance-methodology.txt HTTP/1.1'')
      (new_handler no_files)) = Some OSError \<and>
   body_of (wfile (snd (handle_one_request example_framework
      (example_request ''GET /governance-methodology.txt HTTP/1.1'')
      (new_handler no_files)))) = [] \<and>
   accepted example_framework (example_request ''GET /governance-methodology.md'')
     no_files (passed ''GET'' ''/governance-methodology.md'' ''HTTP/0.9'' no_files) \<and>
   no_files ''formatted-governance-methodology.md'' = None \<and>
   fst (handle_one_request example_framework
      (example_request ''GET /governance-methodology.md'') (new_handler no_files)) =
     Some OSError \<and>
   wfile (snd (handle_one_request example_framework
      (example_request ''GET /governance-methodology.md'') (new_handler no_files))) = []"
  using independent_requests_failure_after_head
          [OF accepted_examples(1) [of example_framework no_files], of "[]"]
        independent_requests_failure_after_head
          [OF accepted_examples(11) [of example_framework no_files], of "[]"]
  by (simp add: accepted_examples(1,11) no_files_def Let_def)

subsection \<open>State\<close>



text \<open>
  Claim C8. Handling a request leaves the backing files unchanged: one request,
  one pass of the serving loop and a whole sequence of requests all return the
  directory they were given.
\<close>

theorem files_unchanged:
  "files (snd (handle_one_request fw rq self)) = files self \<and>
   snd (process_request fw rq fs) = fs \<and>
   snd (serve_forever fw rqs fs) = fs"
  by (simp add: handle_one_request_files process_request_files serve_forever_alone)

subsection \<open>Start-up\<close>

text \<open>
  Claim C9. The server binds port 8080, whatever the environment, and once bound
  prints the listening URL and the two download URLs
  \<^verbatim>\<open>http://localhost:8080/governance-methodology.txt\<close> and
  \<^verbatim>\<open>http://localhost:8080/governance-methodology.md\<close> on standard output.
\<close>

theorem startup_port_and_output:
  "can_bind ('''', 8080) \<Longrightarrow>
   main can_bind =
     Inr (('''', 8080),
       [''Download server running at http://localhost:8080/'',
        ''Available downloads:'',
        ''  - http://localhost:8080/governance-methodology.txt'',
        ''  - http://localhost:8080/governance-methodology.md''])"
  by (simp add: main_def str_PORT) (simp add: PORT_def)

theorem startup_port_and_output_witness:
  "(\<lambda>a. True) ('''', 8080::int) \<and>
   main (\<lambda>a. True) =
     Inr (('''', 8080),
       [''Download server running at http://localhost:8080/'',
        ''Available downloads:'',
        ''  - http://localhost:8080/governance-methodology.txt'',
        ''  - http://localhost:8080/governance-methodology.md''])"
  using startup_port_and_output [of "\<lambda>a. True"] by simp

end
